theory Spec2Isabelle
  imports Complex_Main "HOL-Library.Stream" "HOL-Library.Word"
begin

section \<open>The clock\<close>

text \<open>
  \<^verbatim>\<open>using Clock = std::chrono::high_resolution_clock\<close>. A time point is the number of
  ticks since the clock's epoch; the source multiplies tick counts by \<^verbatim>\<open>pow(10, -9)\<close>, so a
  tick is taken to be a nanosecond. Tick counts are 64-bit signed in the usual
  implementations and their overflow is undefined behaviour; it needs readings some 292
  years apart, and the model uses unbounded integers.

  Every call of \<^verbatim>\<open>Clock::now()\<close> is an effect: it consumes the next reading of the clock.
  The clock is the stream of the readings still to come.
\<close>

type_synonym time_point = int

type_synonym Clock = "time_point stream"

definition Clock_now :: "Clock \<Rightarrow> time_point \<times> Clock" where
  "Clock_now c = (shd c, stl c)"

text \<open>
  A monotonic clock never returns a reading earlier than a previous one.
  \<^verbatim>\<open>high_resolution_clock\<close> is not required to be one: where it is the system clock, a
  reading can be earlier than the one before.
\<close>

definition monotonic :: "Clock \<Rightarrow> bool" where
  "monotonic c \<longleftrightarrow> (\<forall>i. c !! i \<le> c !! Suc i)"

text \<open>
  \<^verbatim>\<open>double\<close> is modelled by the reals (no rounding, no NaN, no infinities), and
  \<^verbatim>\<open>d.count() * pow(10, -9)\<close> converts a tick count to seconds.
\<close>

definition seconds :: "int \<Rightarrow> real" where
  "seconds ticks = real_of_int ticks * 10 powi (- 9)"

section \<open>class Timer\<close>

text \<open>
  The two time points are default-constructed, which for \<^verbatim>\<open>std::chrono::time_point\<close>
  is the clock's epoch.
\<close>

record Timer =
  startTime :: time_point
  endTime :: time_point

definition Timer_ctor :: Timer where
  "Timer_ctor = \<lparr>startTime = 0, endTime = 0\<rparr>"

definition getTimePassed :: "'a Timer_scheme \<Rightarrow> real" where
  "getTimePassed t = seconds (endTime t - startTime t)"

definition start :: "'a Timer_scheme \<Rightarrow> Clock \<Rightarrow> 'a Timer_scheme \<times> Clock" where
  "start t c = (case Clock_now c of (now, c') \<Rightarrow> (t\<lparr>startTime := now\<rparr>, c'))"

definition stop :: "'a Timer_scheme \<Rightarrow> Clock \<Rightarrow> 'a Timer_scheme \<times> Clock" where
  "stop t c = (case Clock_now c of (now, c') \<Rightarrow> (t\<lparr>endTime := now\<rparr>, c'))"

section \<open>class TimedEvent\<close>

record TimedEvent = Timer +
  handled :: bool
  repeated :: bool
  waitTime :: real

text \<open>The \<^verbatim>\<open>const\<close> member functions return a value and the clock they leave behind.\<close>

definition getLateness :: "'a TimedEvent_scheme \<Rightarrow> Clock \<Rightarrow> real \<times> Clock" where
  "getLateness ev c =
     (case Clock_now c of (now, c') \<Rightarrow> (seconds (now - startTime ev) - waitTime ev, c'))"

definition isDue :: "'a TimedEvent_scheme \<Rightarrow> Clock \<Rightarrow> bool \<times> Clock" where
  "isDue ev c = (case getLateness ev c of (lateness, c') \<Rightarrow> (lateness \<ge> 0, c'))"

definition isHandled :: "'a TimedEvent_scheme \<Rightarrow> bool" where
  "isHandled ev = handled ev"

text \<open>\<^verbatim>\<open>!handled && isDue()\<close>: the clock is not read when the event is handled.\<close>

definition shouldHandle :: "'a TimedEvent_scheme \<Rightarrow> Clock \<Rightarrow> bool \<times> Clock" where
  "shouldHandle ev c = (if \<not> handled ev then isDue ev c else (False, c))"

definition handle_TimedEvent ::
  "'a TimedEvent_scheme \<Rightarrow> Clock \<Rightarrow> bool \<times> 'a TimedEvent_scheme \<times> Clock" where
  "handle_TimedEvent ev c =
     (case shouldHandle ev c of (should, c1) \<Rightarrow>
        if should then
          (if repeated ev then
             (case start ev c1 of (ev', c2) \<Rightarrow> (True, ev', c2))
           else (True, ev\<lparr>handled := True\<rparr>, c1))
        else (False, ev, c1))"

text \<open>
  \<^verbatim>\<open>TimedEvent(bool rep, double wt) : repeated(rep), waitTime(wt), handled(false) { start(); }\<close>
\<close>

definition TimedEvent_ctor :: "bool \<Rightarrow> real \<Rightarrow> Clock \<Rightarrow> TimedEvent \<times> Clock" where
  "TimedEvent_ctor rep wt c =
     start \<lparr>startTime = startTime Timer_ctor, endTime = endTime Timer_ctor,
            handled = False, repeated = rep, waitTime = wt\<rparr> c"

section \<open>class JobEvent\<close>

text \<open>
  \<^verbatim>\<open>using Callback = std::function<void()>\<close>. A callback works on an environment of
  type \<^typ>\<open>'w\<close> (whatever it captured) and either returns, leaving a new environment, or
  throws. It may hold a reference to the event it belongs to, so the model hands it the
  \<^verbatim>\<open>TimedEvent\<close> part of the event as it is at the moment of the call. Calling an empty
  \<^verbatim>\<open>std::function\<close> throws \<^verbatim>\<open>std::bad_function_call\<close>, so an empty callback is the
  callback that throws it. A callback that changes the event it belongs to, or calls
  \<^verbatim>\<open>handle()\<close> on it again, is outside the model.
\<close>

datatype exn = bad_function_call | exception string

type_synonym 'w Callback = "TimedEvent \<Rightarrow> 'w \<Rightarrow> exn + 'w"

record 'w JobEvent = TimedEvent +
  job :: "'w Callback"

text \<open>
  How a call of \<^verbatim>\<open>handle()\<close> ends: it returns its boolean, or an exception leaves it, or
  \<^verbatim>\<open>std::terminate\<close> is called and the program is over. Each case carries the event and the
  clock as they are at that point.
\<close>

datatype ('e, 'w) outcome =
    Returned bool 'e Clock 'w
  | Raised exn 'e Clock
  | Terminated exn 'e Clock

text \<open>
  A function declared \<^verbatim>\<open>noexcept\<close>: an exception that would leave it calls
  \<^verbatim>\<open>std::terminate\<close> instead.
\<close>

fun noexcept :: "('e, 'w) outcome \<Rightarrow> ('e, 'w) outcome" where
  "noexcept (Raised e ev c) = Terminated e ev c"
| "noexcept (Returned r ev c w) = Returned r ev c w"
| "noexcept (Terminated e ev c) = Terminated e ev c"

definition getJob :: "('w, 'a) JobEvent_scheme \<Rightarrow> 'w Callback" where
  "getJob ev = job ev"


text \<open>The body of \<^verbatim>\<open>JobEvent::handle\<close>, between its braces.\<close>

definition JobEvent_handle_body ::
  "('w, 'a) JobEvent_scheme \<Rightarrow> Clock \<Rightarrow> 'w \<Rightarrow> (('w, 'a) JobEvent_scheme, 'w) outcome" where
  "JobEvent_handle_body ev c w =
     (case handle_TimedEvent ev c of (result, ev', c') \<Rightarrow>
        if result then
          (case job ev' (TimedEvent.truncate ev') w of
             Inr w' \<Rightarrow> Returned result ev' c' w'
           | Inl e \<Rightarrow> Raised e ev' c')
        else Returned result ev' c' w)"

text \<open>\<^verbatim>\<open>inline virtual bool handle() noexcept override\<close>\<close>

definition handle_JobEvent ::
  "('w, 'a) JobEvent_scheme \<Rightarrow> Clock \<Rightarrow> 'w \<Rightarrow> (('w, 'a) JobEvent_scheme, 'w) outcome" where
  "handle_JobEvent ev c w = noexcept (JobEvent_handle_body ev c w)"

text \<open>\<^verbatim>\<open>JobEvent(Callback cb, bool rep, double wt) : TimedEvent(rep, wt), job(cb) {}\<close>\<close>

definition JobEvent_ctor :: "'w Callback \<Rightarrow> bool \<Rightarrow> real \<Rightarrow> Clock \<Rightarrow> 'w JobEvent \<times> Clock" where
  "JobEvent_ctor cb rep wt c =
     (case TimedEvent_ctor rep wt c of (base, c') \<Rightarrow>
        (TimedEvent.extend base (JobEvent.fields cb), c'))"

section \<open>class PriorityEvent\<close>

text \<open>\<^verbatim>\<open>int priority\<close> is a 32-bit signed integer.\<close>

record 'w PriorityEvent = "'w JobEvent" +
  priority :: "32 word"

definition getPriority :: "('w, 'a) PriorityEvent_scheme \<Rightarrow> 32 word" where
  "getPriority ev = priority ev"


definition hasPriority :: "('w, 'a) PriorityEvent_scheme \<Rightarrow> ('w, 'b) PriorityEvent_scheme \<Rightarrow> bool" where
  "hasPriority this event \<longleftrightarrow> sint (priority this) > sint (getPriority event)"

definition operator_gt :: "('w, 'a) PriorityEvent_scheme \<Rightarrow> ('w, 'b) PriorityEvent_scheme \<Rightarrow> bool" where
  "operator_gt this event \<longleftrightarrow> hasPriority this event"

text \<open>
  \<^verbatim>\<open>PriorityEvent(Callback cb, int p, bool rep, double wt) : JobEvent(cb, rep, wt), priority(p) {}\<close>
\<close>

definition PriorityEvent_ctor ::
  "'w Callback \<Rightarrow> 32 word \<Rightarrow> bool \<Rightarrow> real \<Rightarrow> Clock \<Rightarrow> 'w PriorityEvent \<times> Clock" where
  "PriorityEvent_ctor cb p rep wt c =
     (case JobEvent_ctor cb rep wt c of (base, c') \<Rightarrow>
        (JobEvent.extend base (PriorityEvent.fields p), c'))"

section \<open>Virtual dispatch of \<^verbatim>\<open>handle()\<close>\<close>

text \<open>
  An object carries its dynamic class. \<^verbatim>\<open>handle()\<close> is declared \<^verbatim>\<open>virtual\<close> in
  \<^verbatim>\<open>TimedEvent\<close> and overridden in \<^verbatim>\<open>JobEvent\<close>; \<^verbatim>\<open>PriorityEvent\<close> declares no
  \<^verbatim>\<open>handle()\<close> of its own. \<^verbatim>\<open>Timer\<close> is a private base without \<^verbatim>\<open>handle()\<close>
  and is left out of the hierarchy.
\<close>

datatype class_name = TimedEvent_class | JobEvent_class | PriorityEvent_class

datatype 'w object =
    TimedEvent_object TimedEvent
  | JobEvent_object "'w JobEvent"
  | PriorityEvent_object "'w PriorityEvent"

fun dynamic_class :: "'w object \<Rightarrow> class_name" where
  "dynamic_class (TimedEvent_object _) = TimedEvent_class"
| "dynamic_class (JobEvent_object _) = JobEvent_class"
| "dynamic_class (PriorityEvent_object _) = PriorityEvent_class"

fun base_class :: "class_name \<Rightarrow> class_name option" where
  "base_class TimedEvent_class = None"
| "base_class JobEvent_class = Some TimedEvent_class"
| "base_class PriorityEvent_class = Some JobEvent_class"

fun declares_handle :: "class_name \<Rightarrow> bool" where
  "declares_handle TimedEvent_class = True"
| "declares_handle JobEvent_class = True"
| "declares_handle PriorityEvent_class = False"

text \<open>How many base classes lie above a class.\<close>

fun depth :: "class_name \<Rightarrow> nat" where
  "depth TimedEvent_class = 0"
| "depth JobEvent_class = 1"
| "depth PriorityEvent_class = 2"

text \<open>
  The class whose \<^verbatim>\<open>handle()\<close> an object of the given dynamic class runs: its own if
  it declares one, else the one its base class runs.
\<close>

function final_overrider :: "class_name \<Rightarrow> class_name" where
  "final_overrider k =
     (if declares_handle k then k
      else (case base_class k of Some b \<Rightarrow> final_overrider b | None \<Rightarrow> k))"
  by pat_completeness auto
termination
proof (relation "measure depth")
  show "wf (measure depth)" by simp
next
  fix k b
  assume "base_class k = Some b"
  then show "(b, k) \<in> measure depth" by (cases k) auto
qed

text \<open>A reference of static class \<open>s\<close> can be bound to an object of class \<open>d\<close>.\<close>

function is_base_of :: "class_name \<Rightarrow> class_name \<Rightarrow> bool" where
  "is_base_of s d =
     (s = d \<or> (case base_class d of Some b \<Rightarrow> is_base_of s b | None \<Rightarrow> False))"
  by pat_completeness auto
termination
proof (relation "measure (\<lambda>(s, d). depth d)")
  show "wf (measure (\<lambda>(s, d). depth d))" by simp
next
  fix s d b :: class_name
  assume "base_class d = Some b"
  then show "((s, b), (s, d)) \<in> measure (\<lambda>(s, d). depth d)" by (cases d) auto
qed

text \<open>
  Running the \<^verbatim>\<open>handle()\<close> that class \<open>k\<close> declares on an object: \<open>None\<close> when the class
  declares none or the object is not of that class.
\<close>

fun run_handle ::
  "class_name \<Rightarrow> 'w object \<Rightarrow> Clock \<Rightarrow> 'w \<Rightarrow> ('w object, 'w) outcome option" where
  "run_handle TimedEvent_class (TimedEvent_object ev) c w =
     (case handle_TimedEvent ev c of (r, ev', c') \<Rightarrow>
        Some (Returned r (TimedEvent_object ev') c' w))"
| "run_handle TimedEvent_class (JobEvent_object ev) c w =
     (case handle_TimedEvent ev c of (r, ev', c') \<Rightarrow>
        Some (Returned r (JobEvent_object ev') c' w))"
| "run_handle TimedEvent_class (PriorityEvent_object ev) c w =
     (case handle_TimedEvent ev c of (r, ev', c') \<Rightarrow>
        Some (Returned r (PriorityEvent_object ev') c' w))"
| "run_handle JobEvent_class (TimedEvent_object ev) c w = None"
| "run_handle JobEvent_class (JobEvent_object ev) c w =
     Some (map_outcome JobEvent_object id (handle_JobEvent ev c w))"
| "run_handle JobEvent_class (PriorityEvent_object ev) c w =
     Some (map_outcome PriorityEvent_object id (handle_JobEvent ev c w))"
| "run_handle PriorityEvent_class obj c w = None"

text \<open>
  The call \<^verbatim>\<open>ref.handle()\<close> through a reference of static class \<open>s\<close>. The function is
  virtual in every class of the hierarchy, so the call runs the final overrider of the
  object's dynamic class. A reference that cannot be bound to the object gives \<open>None\<close>.
\<close>

definition call_handle ::
  "class_name \<Rightarrow> 'w object \<Rightarrow> Clock \<Rightarrow> 'w \<Rightarrow> ('w object, 'w) outcome option" where
  "call_handle s obj c w =
     (if is_base_of s (dynamic_class obj)
      then run_handle (final_overrider (dynamic_class obj)) obj c w
      else None)"

section \<open>Callers\<close>

text \<open>A caller that polls \<^verbatim>\<open>TimedEvent::handle()\<close>, each time with the clock as it is then.\<close>

fun poll :: "'a TimedEvent_scheme \<Rightarrow> Clock list \<Rightarrow> bool list \<times> 'a TimedEvent_scheme" where
  "poll ev [] = ([], ev)"
| "poll ev (c # cs) =
     (case handle_TimedEvent ev c of (r, ev', _) \<Rightarrow>
        (case poll ev' cs of (rs, ev'') \<Rightarrow> (r # rs, ev'')))"




text \<open>
  A caller that calls \<^verbatim>\<open>TimedEvent::handle()\<close> again and again on the one clock; before
  each call the clock is read \<open>k\<close> times elsewhere.
\<close>

fun handle_after ::
  "nat list \<Rightarrow> 'a TimedEvent_scheme \<Rightarrow> Clock \<Rightarrow> bool list \<times> 'a TimedEvent_scheme \<times> Clock" where
  "handle_after [] ev c = ([], ev, c)"
| "handle_after (k # ks) ev c =
     (case handle_TimedEvent ev (sdrop k c) of (r, ev', c') \<Rightarrow>
        (case handle_after ks ev' c' of (rs, ev'', c'') \<Rightarrow> (r # rs, ev'', c'')))"

text \<open>A clock that is read every half second, starting at reading \<open>t0\<close>.\<close>

definition ticking :: "time_point \<Rightarrow> Clock" where
  "ticking t0 = siterate (\<lambda>t. t + 500000000) t0"

section \<open>Basic facts\<close>

lemma seconds_diff: "seconds (a - b) = seconds a - seconds b"
  by (simp add: seconds_def left_diff_distrib)

lemma seconds_nonneg: "0 \<le> t \<Longrightarrow> 0 \<le> seconds t"
  by (simp add: seconds_def)


lemma monotonic_snth: "monotonic c \<Longrightarrow> c !! i \<le> c !! (i + k)"
proof (induction k)
  case 0
  show ?case by simp
next
  case (Suc k)
  from Suc.prems have "c !! (i + k) \<le> c !! Suc (i + k)"
    unfolding monotonic_def by blast
  with Suc show ?case by simp
qed

lemma monotonic_later: "monotonic c \<Longrightarrow> shd c \<le> shd (sdrop n c)"
  using monotonic_snth [of c 0 n] by simp

lemma monotonic_ticking: "monotonic (ticking t0)"
  unfolding monotonic_def ticking_def
proof
  fix i
  show "siterate (\<lambda>t. t + 500000000) t0 !! i \<le> siterate (\<lambda>t. t + 500000000) t0 !! Suc i"
    by (simp del: snth.simps)
qed

lemma shd_ticking: "shd (ticking t0) = t0"
  by (simp add: ticking_def)

lemma stl_ticking: "stl (ticking t0) = ticking (t0 + 500000000)"
  by (simp add: ticking_def)

lemma handle_TimedEvent_handled:
  "handled ev \<Longrightarrow> handle_TimedEvent ev c = (False, ev, c)"
  by (simp add: handle_TimedEvent_def shouldHandle_def)

lemma handle_TimedEvent_waiting:
  "\<not> handled ev \<Longrightarrow> seconds (shd c - startTime ev) - waitTime ev < 0 \<Longrightarrow>
   handle_TimedEvent ev c = (False, ev, stl c)"
  by (simp add: handle_TimedEvent_def shouldHandle_def isDue_def getLateness_def Clock_now_def)

lemma handle_TimedEvent_restart:
  "\<not> handled ev \<Longrightarrow> 0 \<le> seconds (shd c - startTime ev) - waitTime ev \<Longrightarrow> repeated ev \<Longrightarrow>
   handle_TimedEvent ev c = (True, ev\<lparr>startTime := shd (stl c)\<rparr>, stl (stl c))"
  by (simp add: handle_TimedEvent_def shouldHandle_def isDue_def getLateness_def Clock_now_def
      start_def)

lemma handle_TimedEvent_fire:
  "\<not> handled ev \<Longrightarrow> 0 \<le> seconds (shd c - startTime ev) - waitTime ev \<Longrightarrow> \<not> repeated ev \<Longrightarrow>
   handle_TimedEvent ev c = (True, ev\<lparr>handled := True\<rparr>, stl c)"
  by (simp add: handle_TimedEvent_def shouldHandle_def isDue_def getLateness_def Clock_now_def)

lemma shouldHandle_eq:
  "shouldHandle ev c =
     (if handled ev then (False, c)
      else (0 \<le> seconds (shd c - startTime ev) - waitTime ev, stl c))"
  by (simp add: shouldHandle_def isDue_def getLateness_def Clock_now_def)

section \<open>TimedEvent::handle\<close>

text \<open>
  Claim C1. \<^verbatim>\<open>TimedEvent::handle()\<close> has exactly three transitions. When
  \<^verbatim>\<open>shouldHandle()\<close> is false it returns false and leaves the event as it was. When it is
  true and the event is repeated, it returns true and the event differs only in
  \<^verbatim>\<open>startTime\<close>, which is the reading \<^verbatim>\<open>start()\<close> takes from the clock (the reading after
  the one \<^verbatim>\<open>getLateness()\<close> took); \<^verbatim>\<open>handled\<close> stays false. The new start is not the old
  start plus the wait: it is later by the lateness and by the time between the two readings,
  so the event drifts. When \<^verbatim>\<open>shouldHandle()\<close> is true and the event is not repeated, it
  returns true and the event differs only in \<^verbatim>\<open>handled\<close>, which is true.
\<close>

theorem handle_three_transitions:
  "(\<not> fst (shouldHandle ev c) \<longrightarrow>
      handle_TimedEvent ev c = (False, ev, snd (shouldHandle ev c))) \<and>
   (fst (shouldHandle ev c) \<and> repeated ev \<longrightarrow>
      handle_TimedEvent ev c =
        (True, ev\<lparr>startTime := fst (Clock_now (snd (shouldHandle ev c)))\<rparr>,
         snd (Clock_now (snd (shouldHandle ev c)))) \<and>
      \<not> handled (fst (snd (handle_TimedEvent ev c))) \<and>
      seconds (startTime (fst (snd (handle_TimedEvent ev c)))) =
        seconds (startTime ev) + waitTime ev + fst (getLateness ev c)
          + seconds (shd (stl c) - shd c)) \<and>
   (fst (shouldHandle ev c) \<and> \<not> repeated ev \<longrightarrow>
      handle_TimedEvent ev c = (True, ev\<lparr>handled := True\<rparr>, snd (shouldHandle ev c)))"
proof (cases "handled ev")
  case True
  then show ?thesis
    by (simp add: shouldHandle_eq handle_TimedEvent_handled)
next
  case unhandled: False
  show ?thesis
  proof (cases "0 \<le> seconds (shd c - startTime ev) - waitTime ev")
    case False
    with unhandled show ?thesis
      by (simp add: shouldHandle_eq handle_TimedEvent_waiting)
  next
    case due: True
    show ?thesis
    proof (cases "repeated ev")
      case True
      with unhandled due show ?thesis
        by (simp add: shouldHandle_eq handle_TimedEvent_restart Clock_now_def getLateness_def
            seconds_diff)
    next
      case False
      with unhandled due show ?thesis
        by (simp add: shouldHandle_eq handle_TimedEvent_fire)
    qed
  qed
qed


theorem handle_three_transitions_witness:
  "handle_TimedEvent
     \<lparr>startTime = 0, endTime = 0, handled = False, repeated = False, waitTime = 1\<rparr> (ticking 0)
   = (False, \<lparr>startTime = 0, endTime = 0, handled = False, repeated = False, waitTime = 1\<rparr>,
      ticking 500000000) \<and>
   handle_TimedEvent
     \<lparr>startTime = 0, endTime = 0, handled = False, repeated = True, waitTime = 1\<rparr>
     (ticking 1500000000)
   = (True,
      \<lparr>startTime = 2000000000, endTime = 0, handled = False, repeated = True, waitTime = 1\<rparr>,
      ticking 2500000000) \<and>
   handle_TimedEvent
     \<lparr>startTime = 0, endTime = 0, handled = False, repeated = False, waitTime = 1\<rparr>
     (ticking 1500000000)
   = (True, \<lparr>startTime = 0, endTime = 0, handled = True, repeated = False, waitTime = 1\<rparr>,
      ticking 2000000000)"
proof -
  let ?once = "\<lparr>startTime = 0, endTime = 0, handled = False, repeated = False, waitTime = 1\<rparr>"
  let ?again = "\<lparr>startTime = 0, endTime = 0, handled = False, repeated = True, waitTime = 1\<rparr>"
  have waiting: "\<not> fst (shouldHandle ?once (ticking 0))"
    by (simp add: shouldHandle_eq shd_ticking seconds_def)
  have due_again: "fst (shouldHandle ?again (ticking 1500000000)) \<and> repeated ?again"
    by (simp add: shouldHandle_eq shd_ticking seconds_def)
  have due_once: "fst (shouldHandle ?once (ticking 1500000000)) \<and> \<not> repeated ?once"
    by (simp add: shouldHandle_eq shd_ticking seconds_def)
  from waiting handle_three_transitions [of ?once "ticking 0"]
  have "handle_TimedEvent ?once (ticking 0) = (False, ?once, snd (shouldHandle ?once (ticking 0)))"
    by blast
  moreover from due_again handle_three_transitions [of ?again "ticking 1500000000"]
  have "handle_TimedEvent ?again (ticking 1500000000) =
          (True, ?again\<lparr>startTime := fst (Clock_now (snd (shouldHandle ?again (ticking 1500000000))))\<rparr>,
           snd (Clock_now (snd (shouldHandle ?again (ticking 1500000000)))))"
    by blast
  moreover from due_once handle_three_transitions [of ?once "ticking 1500000000"]
  have "handle_TimedEvent ?once (ticking 1500000000) =
          (True, ?once\<lparr>handled := True\<rparr>, snd (shouldHandle ?once (ticking 1500000000)))"
    by blast
  ultimately show ?thesis
    by (simp add: shouldHandle_eq Clock_now_def shd_ticking stl_ticking)
qed

section \<open>Timer\<close>

text \<open>
  Claim C9. On a monotonic clock, after \<^verbatim>\<open>start()\<close> and a later \<^verbatim>\<open>stop()\<close> (any number
  \<open>n\<close> of clock readings in between), \<^verbatim>\<open>endTime\<close> is not before \<^verbatim>\<open>startTime\<close>, and
  \<^verbatim>\<open>getTimePassed()\<close> is their difference in nanoseconds divided by \<open>10\<^sup>9\<close>, that is in
  seconds, and is not negative.
\<close>

theorem getTimePassed_start_stop:
  assumes "monotonic c"
    and "start t c = (t1, c1)"
    and "stop t1 (sdrop n c1) = (t2, c2)"
  shows "startTime t2 = shd c \<and> endTime t2 = shd (sdrop n c1) \<and>
         startTime t2 \<le> endTime t2 \<and>
         getTimePassed t2 = real_of_int (endTime t2 - startTime t2) / 10 ^ 9 \<and>
         0 \<le> getTimePassed t2"
proof -
  from assms(2) have t1: "t1 = t\<lparr>startTime := shd c\<rparr>" and c1: "c1 = stl c"
    by (auto simp add: start_def Clock_now_def)
  from assms(3) have t2: "t2 = t1\<lparr>endTime := shd (sdrop n c1)\<rparr>"
    by (auto simp add: stop_def Clock_now_def)
  have "shd c \<le> shd (sdrop (Suc n) c)"
    using assms(1) by (rule monotonic_later)
  then have le: "shd c \<le> shd (sdrop n c1)" by (simp add: c1)
  then have "0 \<le> seconds (shd (sdrop n c1) - shd c)"
    by (simp add: seconds_nonneg)
  with le show ?thesis
    by (simp add: t1 t2 getTimePassed_def seconds_def)
qed

theorem getTimePassed_start_stop_witness:
  "monotonic (ticking 1000) \<and>
   getTimePassed \<lparr>startTime = 1000, endTime = 1500001000\<rparr> = 3 / 2 \<and>
   0 \<le> getTimePassed \<lparr>startTime = 1000, endTime = 1500001000\<rparr>"
proof -
  have mono: "monotonic (ticking 1000)" by (rule monotonic_ticking)
  have started: "start Timer_ctor (ticking 1000)
                   = (\<lparr>startTime = 1000, endTime = 0\<rparr>, ticking 500001000)"
    by (simp add: start_def Clock_now_def Timer_ctor_def shd_ticking stl_ticking)
  have later: "sdrop 2 (ticking 500001000) = ticking 1500001000"
    by (simp add: stl_ticking numeral_2_eq_2)
  have stopped: "stop \<lparr>startTime = 1000, endTime = 0\<rparr> (sdrop 2 (ticking 500001000))
                   = (\<lparr>startTime = 1000, endTime = 1500001000\<rparr>, ticking 2000001000)"
    by (simp add: later stop_def Clock_now_def shd_ticking stl_ticking)
  from getTimePassed_start_stop [OF mono started stopped] mono
  show ?thesis by simp
qed

section \<open>Constructors\<close>

lemma TimedEvent_ctor_eq:
  "TimedEvent_ctor rep wt c =
     (\<lparr>startTime = shd c, endTime = 0, handled = False, repeated = rep, waitTime = wt\<rparr>, stl c)"
  by (simp add: TimedEvent_ctor_def Timer_ctor_def start_def Clock_now_def)

lemma JobEvent_ctor_eq:
  "JobEvent_ctor cb rep wt c =
     (\<lparr>startTime = shd c, endTime = 0, handled = False, repeated = rep, waitTime = wt,
       job = cb\<rparr>, stl c)"
  by (simp add: JobEvent_ctor_def TimedEvent_ctor_eq TimedEvent.defs JobEvent.defs)

lemma PriorityEvent_ctor_eq:
  "PriorityEvent_ctor cb p rep wt c =
     (\<lparr>startTime = shd c, endTime = 0, handled = False, repeated = rep, waitTime = wt,
       job = cb, priority = p\<rparr>, stl c)"
  by (simp add: PriorityEvent_ctor_def JobEvent_ctor_eq JobEvent.defs PriorityEvent.defs)

lemma handle_TimedEvent_returns:
  "fst (handle_TimedEvent ev c) = fst (shouldHandle ev c)"
  by (cases "shouldHandle ev c") (simp add: handle_TimedEvent_def start_def Clock_now_def)

text \<open>
  Claim C5 says that a negative wait is rejected, by clamping it to zero or by refusing to
  construct. The constructor has no such check: built with \<open>-1\<close>, the event stores a
  negative \<^verbatim>\<open>waitTime\<close>.
\<close>

theorem negative_waitTime_counterexample:
  "waitTime (fst (TimedEvent_ctor False (- 1) (ticking 0))) < 0"
  by (simp add: TimedEvent_ctor_eq)

text \<open>
  Claim C5, amended. The three constructors always build an event, and it stores the
  wait it was given unchanged, whatever its sign.
\<close>

theorem ctor_stores_waitTime:
  "waitTime (fst (TimedEvent_ctor rep wt c)) = wt \<and>
   waitTime (fst (JobEvent_ctor cb rep wt c)) = wt \<and>
   waitTime (fst (PriorityEvent_ctor cb p rep wt c)) = wt"
  by (simp add: TimedEvent_ctor_eq JobEvent_ctor_eq PriorityEvent_ctor_eq)

section \<open>The priority order\<close>

text \<open>
  Claim C7. \<^verbatim>\<open>a > b\<close> holds exactly when the priority of \<open>a\<close> is greater than that of
  \<open>b\<close> as signed integers, and \<^verbatim>\<open>hasPriority\<close> agrees with it. The relation is
  irreflexive, asymmetric and transitive, and two events of equal priority are unordered.
\<close>

theorem priority_order_strict:
  "(operator_gt a b \<longleftrightarrow> sint (priority a) > sint (priority b)) \<and>
   (hasPriority a b \<longleftrightarrow> operator_gt a b) \<and>
   \<not> operator_gt a a \<and>
   (operator_gt a b \<longrightarrow> \<not> operator_gt b a) \<and>
   (operator_gt a b \<and> operator_gt b c \<longrightarrow> operator_gt a c) \<and>
   (priority a = priority b \<longrightarrow> \<not> operator_gt a b \<and> \<not> operator_gt b a)"
  by (auto simp add: operator_gt_def hasPriority_def getPriority_def)


theorem priority_order_strict_witness:
  "operator_gt (fst (PriorityEvent_ctor (\<lambda>_ (w :: unit). Inr w) 7 False 1 (ticking 0)))
               (fst (PriorityEvent_ctor (\<lambda>_ (w :: unit). Inr w) 5 False 1 (ticking 0))) \<and>
   operator_gt (fst (PriorityEvent_ctor (\<lambda>_ (w :: unit). Inr w) 5 False 1 (ticking 0)))
               (fst (PriorityEvent_ctor (\<lambda>_ (w :: unit). Inr w) (- 3) False 1 (ticking 0))) \<and>
   operator_gt (fst (PriorityEvent_ctor (\<lambda>_ (w :: unit). Inr w) 7 False 1 (ticking 0)))
               (fst (PriorityEvent_ctor (\<lambda>_ (w :: unit). Inr w) (- 3) False 1 (ticking 0))) \<and>
   \<not> operator_gt (fst (PriorityEvent_ctor (\<lambda>_ (w :: unit). Inr w) 5 False 1 (ticking 0)))
                 (fst (PriorityEvent_ctor (\<lambda>_ (w :: unit). Inr w) 7 False 1 (ticking 0))) \<and>
   \<not> operator_gt (fst (PriorityEvent_ctor (\<lambda>_ (w :: unit). Inr w) 5 False 1 (ticking 0)))
                 (fst (PriorityEvent_ctor (\<lambda>_ (w :: unit). Inr w) 5 True 2 (ticking 0)))"
proof -
  let ?a = "fst (PriorityEvent_ctor (\<lambda>_ (w :: unit). Inr w) 7 False 1 (ticking 0))"
  let ?b = "fst (PriorityEvent_ctor (\<lambda>_ (w :: unit). Inr w) 5 False 1 (ticking 0))"
  let ?b' = "fst (PriorityEvent_ctor (\<lambda>_ (w :: unit). Inr w) 5 True 2 (ticking 0))"
  let ?c = "fst (PriorityEvent_ctor (\<lambda>_ (w :: unit). Inr w) (- 3) False 1 (ticking 0))"
  have ab: "sint (priority ?a) > sint (priority ?b)"
    by (simp add: PriorityEvent_ctor_eq)
  have bc: "sint (priority ?b) > sint (priority ?c)"
    by (simp add: PriorityEvent_ctor_eq)
  have same: "priority ?b = priority ?b'"
    by (simp add: PriorityEvent_ctor_eq)
  from priority_order_strict [of ?a ?b ?b] ab have gt_ab: "operator_gt ?a ?b" by blast
  from priority_order_strict [of ?b ?c ?c] bc have gt_bc: "operator_gt ?b ?c" by blast
  from priority_order_strict [of ?a ?b ?c] gt_ab gt_bc
  have "operator_gt ?a ?c" and "\<not> operator_gt ?b ?a" by blast+
  moreover from priority_order_strict [of ?b ?b' ?b'] same
  have "\<not> operator_gt ?b ?b'" by blast
  ultimately show ?thesis using gt_ab gt_bc by blast
qed

section \<open>One-shot events\<close>

lemma poll_handled: "handled ev \<Longrightarrow> poll ev cs = (replicate (length cs) False, ev)"
  by (induction cs) (simp_all add: handle_TimedEvent_handled)

lemma handle_TimedEvent_fired:
  assumes "\<not> repeated ev" and "handle_TimedEvent ev c = (True, ev1, c1)"
  shows "ev1 = ev\<lparr>handled := True\<rparr>"
proof (cases "fst (shouldHandle ev c)")
  case True
  with assms show ?thesis
    by (cases "shouldHandle ev c") (simp add: handle_TimedEvent_def)
next
  case False
  then have "\<not> fst (handle_TimedEvent ev c)" by (simp add: handle_TimedEvent_returns)
  with assms(2) show ?thesis by simp
qed

lemma noexcept_Returned:
  "noexcept x = Returned r ev c w \<longleftrightarrow> x = Returned r ev c w"
  by (cases x) simp_all

lemma handle_JobEvent_handled:
  "handled ev \<Longrightarrow> handle_JobEvent ev c w = Returned False ev c w"
  by (simp add: handle_JobEvent_def JobEvent_handle_body_def handle_TimedEvent_handled)

lemma handle_JobEvent_fired:
  assumes "\<not> repeated ev" and "handle_JobEvent ev c w = Returned True ev1 c1 w1"
  shows "handled ev1"
proof -
  obtain r ev' c' where base: "handle_TimedEvent ev c = (r, ev', c')"
    by (cases "handle_TimedEvent ev c") auto
  from assms(2) have "JobEvent_handle_body ev c w = Returned True ev1 c1 w1"
    by (simp add: handle_JobEvent_def noexcept_Returned)
  with base have "r" and "ev1 = ev'"
    by (auto simp add: JobEvent_handle_body_def split: if_splits sum.splits)
  with base assms(1) show ?thesis
    using handle_TimedEvent_fired [of ev c ev' c'] by simp
qed

text \<open>
  Claim C3. Once \<^verbatim>\<open>handle()\<close> has returned true on an event that is not repeated, the
  event is handled, and every later \<^verbatim>\<open>handle()\<close>, whatever the clock says, returns false
  and leaves the event and the clock as they were: polling it any number of times gives
  false each time and the same event, still handled. The same holds for
  \<^verbatim>\<open>JobEvent::handle()\<close>, which then does not run the callback: the environment is
  untouched.
\<close>

theorem one_shot_fires_once:
  "(\<not> repeated ev \<and> handle_TimedEvent ev c = (True, ev1, c1) \<longrightarrow>
      isHandled ev1 \<and>
      handle_TimedEvent ev1 c2 = (False, ev1, c2) \<and>
      poll ev1 cs = (replicate (length cs) False, ev1) \<and>
      isHandled (snd (poll ev1 cs))) \<and>
   (\<not> repeated jev \<and> handle_JobEvent jev c w = Returned True jev1 c1 w1 \<longrightarrow>
      isHandled jev1 \<and>
      handle_JobEvent jev1 c2 w2 = Returned False jev1 c2 w2)"
proof (intro conjI impI)
  assume h: "\<not> repeated ev \<and> handle_TimedEvent ev c = (True, ev1, c1)"
  then have "ev1 = ev\<lparr>handled := True\<rparr>"
    using handle_TimedEvent_fired [of ev c ev1 c1] by simp
  then have fired: "handled ev1" by simp
  then show "isHandled ev1" by (simp add: isHandled_def)
  from fired show "handle_TimedEvent ev1 c2 = (False, ev1, c2)"
    by (rule handle_TimedEvent_handled)
  from fired show "poll ev1 cs = (replicate (length cs) False, ev1)"
    by (rule poll_handled)
  then show "isHandled (snd (poll ev1 cs))"
    using fired by (simp add: isHandled_def)
next
  assume h: "\<not> repeated jev \<and> handle_JobEvent jev c w = Returned True jev1 c1 w1"
  then have fired: "handled jev1"
    using handle_JobEvent_fired [of jev c w jev1 c1 w1] by simp
  then show "isHandled jev1" by (simp add: isHandled_def)
  from fired show "handle_JobEvent jev1 c2 w2 = Returned False jev1 c2 w2"
    by (rule handle_JobEvent_handled)
qed

theorem one_shot_fires_once_witness:
  "poll \<lparr>startTime = 0, endTime = 0, handled = True, repeated = False, waitTime = 1\<rparr>
        [ticking 2000000000, ticking 9000000000]
     = ([False, False],
        \<lparr>startTime = 0, endTime = 0, handled = True, repeated = False, waitTime = 1\<rparr>) \<and>
   handle_JobEvent
     \<lparr>startTime = 0, endTime = 0, handled = True, repeated = False, waitTime = 1,
       job = \<lambda>_ n. Inr (Suc n)\<rparr> (ticking 9000000000) (1 :: nat)
     = Returned False
         \<lparr>startTime = 0, endTime = 0, handled = True, repeated = False, waitTime = 1,
           job = \<lambda>_ n. Inr (Suc n)\<rparr> (ticking 9000000000) 1"
proof -
  let ?ev = "\<lparr>startTime = 0, endTime = 0, handled = False, repeated = False, waitTime = 1\<rparr>"
  let ?ev1 = "\<lparr>startTime = 0, endTime = 0, handled = True, repeated = False, waitTime = 1\<rparr>"
  let ?jev = "\<lparr>startTime = 0, endTime = 0, handled = False, repeated = False, waitTime = 1,
                job = \<lambda>_ (n :: nat). Inr (Suc n) :: exn + nat\<rparr>"
  let ?jev1 = "\<lparr>startTime = 0, endTime = 0, handled = True, repeated = False, waitTime = 1,
                 job = \<lambda>_ (n :: nat). Inr (Suc n) :: exn + nat\<rparr>"
  have fired: "\<not> repeated ?ev \<and>
               handle_TimedEvent ?ev (ticking 1500000000) = (True, ?ev1, ticking 2000000000)"
    by (simp add: handle_TimedEvent_fire shd_ticking stl_ticking seconds_def)
  have job_fired: "\<not> repeated ?jev \<and>
               handle_JobEvent ?jev (ticking 1500000000) 0
                 = Returned True ?jev1 (ticking 2000000000) 1"
    by (simp add: handle_JobEvent_def JobEvent_handle_body_def handle_TimedEvent_fire
        shd_ticking stl_ticking seconds_def)
  from fired job_fired
    one_shot_fires_once [of ?ev "ticking 1500000000" ?ev1 "ticking 2000000000"
      "ticking 9000000000" "[ticking 2000000000, ticking 9000000000]" ?jev 0 ?jev1 1 1]
  show ?thesis by simp
qed

section \<open>JobEvent::handle\<close>

lemma handle_TimedEvent_job:
  "job (fst (snd (handle_TimedEvent ev c))) = job ev"
  by (cases "shouldHandle ev c") (simp add: handle_TimedEvent_def start_def Clock_now_def)

lemma handle_TimedEvent_transition:
  assumes "handle_TimedEvent ev c = (True, ev', c')"
  shows "if repeated ev then ev' = ev\<lparr>startTime := shd (stl c)\<rparr> \<and> c' = stl (stl c) \<and> \<not> handled ev'
         else ev' = ev\<lparr>handled := True\<rparr> \<and> c' = stl c"
proof -
  from assms have "fst (handle_TimedEvent ev c)" by simp
  then have should: "fst (shouldHandle ev c)" by (simp add: handle_TimedEvent_returns)
  then have unhandled: "\<not> handled ev" and due: "0 \<le> seconds (shd c - startTime ev) - waitTime ev"
    by (simp_all add: shouldHandle_eq split: if_splits)
  show ?thesis
  proof (cases "repeated ev")
    case True
    with unhandled due assms show ?thesis
      by (auto simp add: handle_TimedEvent_restart)
  next
    case False
    with unhandled due assms show ?thesis
      by (auto simp add: handle_TimedEvent_fire)
  qed
qed

text \<open>
  Claim C2. \<^verbatim>\<open>JobEvent::handle()\<close> first runs \<^verbatim>\<open>TimedEvent::handle()\<close>. If that returns
  true, the transition is complete (a repeated event has its new \<^verbatim>\<open>startTime\<close>, any other
  is handled), and the stored callback is run once, on the event as the transition left it;
  when the callback returns, \<^verbatim>\<open>handle()\<close> returns true with the environment the callback
  left. If the inherited call returns false, the callback is not run: \<^verbatim>\<open>handle()\<close> returns
  false, and the event and the environment are as they were.
\<close>

theorem JobEvent_handle_contract:
  assumes "handle_TimedEvent ev c = (result, ev', c')"
  shows "(result \<longrightarrow>
            (if repeated ev then startTime ev' = shd (stl c) \<and> \<not> handled ev' else handled ev') \<and>
            (\<forall>w'. job ev (TimedEvent.truncate ev') w = Inr w' \<longrightarrow>
                  handle_JobEvent ev c w = Returned True ev' c' w')) \<and>
         (\<not> result \<longrightarrow> ev' = ev \<and> handle_JobEvent ev c w = Returned False ev c' w)"
proof (cases result)
  case True
  with assms have base: "handle_TimedEvent ev c = (True, ev', c')" by simp
  have same_job: "job ev' = job ev"
    using handle_TimedEvent_job [of ev c] base by simp
  have "if repeated ev then startTime ev' = shd (stl c) \<and> \<not> handled ev' else handled ev'"
    using handle_TimedEvent_transition [OF base] by (auto split: if_splits)
  moreover have "\<forall>w'. job ev (TimedEvent.truncate ev') w = Inr w' \<longrightarrow>
                  handle_JobEvent ev c w = Returned True ev' c' w'"
    by (simp add: handle_JobEvent_def JobEvent_handle_body_def base same_job)
  ultimately show ?thesis using True by simp
next
  case False
  with assms have base: "handle_TimedEvent ev c = (False, ev', c')" by simp
  then have "\<not> fst (shouldHandle ev c)"
    using handle_TimedEvent_returns [of ev c] by simp
  then have "handle_TimedEvent ev c = (False, ev, snd (shouldHandle ev c))"
    by (cases "shouldHandle ev c") (simp add: handle_TimedEvent_def)
  with base have "ev' = ev" by simp
  with base False show ?thesis
    by (simp add: handle_JobEvent_def JobEvent_handle_body_def)
qed


theorem JobEvent_handle_contract_witness:
  "handle_JobEvent
     \<lparr>startTime = 0, endTime = 0, handled = False, repeated = False, waitTime = 1,
       job = \<lambda>v n. Inr (if handled v then n + 10 else n + 1)\<rparr> (ticking 1500000000) (0 :: nat)
     = Returned True
         \<lparr>startTime = 0, endTime = 0, handled = True, repeated = False, waitTime = 1,
           job = \<lambda>v n. Inr (if handled v then n + 10 else n + 1)\<rparr> (ticking 2000000000) 10 \<and>
   handle_JobEvent
     \<lparr>startTime = 0, endTime = 0, handled = False, repeated = False, waitTime = 1,
       job = \<lambda>v n. Inr (if handled v then n + 10 else n + 1)\<rparr> (ticking 0) (0 :: nat)
     = Returned False
         \<lparr>startTime = 0, endTime = 0, handled = False, repeated = False, waitTime = 1,
           job = \<lambda>v n. Inr (if handled v then n + 10 else n + 1)\<rparr> (ticking 500000000) 0"
proof -
  let ?cb = "\<lambda>v (n :: nat). Inr (if handled v then n + 10 else n + 1) :: exn + nat"
  let ?ev = "\<lparr>startTime = 0, endTime = 0, handled = False, repeated = False, waitTime = 1,
               job = ?cb\<rparr>"
  let ?ev1 = "\<lparr>startTime = 0, endTime = 0, handled = True, repeated = False, waitTime = 1,
                job = ?cb\<rparr>"
  have fires: "handle_TimedEvent ?ev (ticking 1500000000) = (True, ?ev1, ticking 2000000000)"
    by (simp add: handle_TimedEvent_fire shd_ticking stl_ticking seconds_def)
  have waits: "handle_TimedEvent ?ev (ticking 0) = (False, ?ev, ticking 500000000)"
    by (simp add: handle_TimedEvent_waiting shd_ticking stl_ticking seconds_def)
  have ran: "job ?ev (TimedEvent.truncate ?ev1) 0 = Inr 10"
    by (simp add: TimedEvent.truncate_def)
  from JobEvent_handle_contract [OF fires, of 0] ran
  have "handle_JobEvent ?ev (ticking 1500000000) 0 = Returned True ?ev1 (ticking 2000000000) 10"
    by blast
  moreover from JobEvent_handle_contract [OF waits, of 0]
  have "handle_JobEvent ?ev (ticking 0) 0 = Returned False ?ev (ticking 500000000) 0"
    by blast
  ultimately show ?thesis by simp
qed

section \<open>A callback that throws\<close>

text \<open>
  Claim C6 says that an exception thrown by the callback propagates to the caller of
  \<^verbatim>\<open>handle()\<close>, and that the event can be used afterwards. \<^verbatim>\<open>JobEvent::handle()\<close> is
  declared \<^verbatim>\<open>noexcept\<close>: for a one-shot event that is due and whose callback throws, the
  call ends in \<^verbatim>\<open>std::terminate\<close>, with the event already handled, and no exception
  reaches the caller.
\<close>

theorem throwing_callback_counterexample:
  "handle_JobEvent
     \<lparr>startTime = 0, endTime = 0, handled = False, repeated = False, waitTime = 1,
       job = \<lambda>_ (_ :: unit). Inl (exception ''boom'')\<rparr> (ticking 1500000000) ()
     = Terminated (exception ''boom'')
         \<lparr>startTime = 0, endTime = 0, handled = True, repeated = False, waitTime = 1,
           job = \<lambda>_ (_ :: unit). Inl (exception ''boom'')\<rparr> (ticking 2000000000) \<and>
   handle_JobEvent
     \<lparr>startTime = 0, endTime = 0, handled = False, repeated = False, waitTime = 1,
       job = \<lambda>_ (_ :: unit). Inl (exception ''boom'')\<rparr> (ticking 1500000000) ()
     \<noteq> Raised (exception ''boom'')
         \<lparr>startTime = 0, endTime = 0, handled = True, repeated = False, waitTime = 1,
           job = \<lambda>_ (_ :: unit). Inl (exception ''boom'')\<rparr> (ticking 2000000000)"
  by (simp add: handle_JobEvent_def JobEvent_handle_body_def handle_TimedEvent_fire
      shd_ticking stl_ticking seconds_def)

text \<open>
  Claim C6, amended. When the inherited \<^verbatim>\<open>handle()\<close> returns true and the callback then
  throws, the transition has already been made (a repeated event has its new
  \<^verbatim>\<open>startTime\<close>, any other is handled), and the call ends in \<^verbatim>\<open>std::terminate\<close> with the
  event in that state: it neither returns nor lets the exception reach its caller.
\<close>

theorem throwing_callback_terminates:
  assumes "handle_TimedEvent ev c = (True, ev', c')"
    and "job ev (TimedEvent.truncate ev') w = Inl e"
  shows "(if repeated ev then startTime ev' = shd (stl c) \<and> \<not> handled ev' else handled ev') \<and>
         handle_JobEvent ev c w = Terminated e ev' c' \<and>
         (\<forall>e2 ev2 c2. handle_JobEvent ev c w \<noteq> Raised e2 ev2 c2) \<and>
         (\<forall>r ev2 c2 w2. handle_JobEvent ev c w \<noteq> Returned r ev2 c2 w2)"
proof -
  have same_job: "job ev' = job ev"
    using handle_TimedEvent_job [of ev c] assms(1) by simp
  have moved: "if repeated ev then startTime ev' = shd (stl c) \<and> \<not> handled ev' else handled ev'"
    using handle_TimedEvent_transition [OF assms(1)] by (auto split: if_splits)
  have "handle_JobEvent ev c w = Terminated e ev' c'"
    using assms by (simp add: handle_JobEvent_def JobEvent_handle_body_def same_job)
  with moved show ?thesis by simp
qed

theorem throwing_callback_terminates_witness:
  "handle_JobEvent
     \<lparr>startTime = 0, endTime = 0, handled = False, repeated = True, waitTime = 1,
       job = \<lambda>_ (_ :: unit). Inl bad_function_call\<rparr> (ticking 1500000000) ()
     = Terminated bad_function_call
         \<lparr>startTime = 2000000000, endTime = 0, handled = False, repeated = True, waitTime = 1,
           job = \<lambda>_ (_ :: unit). Inl bad_function_call\<rparr> (ticking 2500000000)"
proof -
  let ?ev = "\<lparr>startTime = 0, endTime = 0, handled = False, repeated = True, waitTime = 1,
               job = \<lambda>_ (_ :: unit). Inl bad_function_call :: exn + unit\<rparr>"
  let ?ev1 = "\<lparr>startTime = 2000000000, endTime = 0, handled = False, repeated = True,
                waitTime = 1, job = \<lambda>_ (_ :: unit). Inl bad_function_call :: exn + unit\<rparr>"
  have fires: "handle_TimedEvent ?ev (ticking 1500000000) = (True, ?ev1, ticking 2500000000)"
    by (simp add: handle_TimedEvent_restart shd_ticking stl_ticking seconds_def)
  have throws: "job ?ev (TimedEvent.truncate ?ev1) () = Inl bad_function_call"
    by simp
  from throwing_callback_terminates [OF fires throws]
  show ?thesis by simp
qed

section \<open>Virtual dispatch\<close>

lemma final_overrider_eq:
  "final_overrider TimedEvent_class = TimedEvent_class"
  "final_overrider JobEvent_class = JobEvent_class"
  "final_overrider PriorityEvent_class = JobEvent_class"
  by simp_all

lemma is_base_of_eq:
  "is_base_of TimedEvent_class d"
  "is_base_of JobEvent_class d \<longleftrightarrow> d \<noteq> TimedEvent_class"
  "is_base_of PriorityEvent_class d \<longleftrightarrow> d = PriorityEvent_class"
  by (cases d; simp)+

lemma handle_JobEvent_fires:
  assumes "handle_TimedEvent ev c = (True, ev', c')"
    and "job ev (TimedEvent.truncate ev') w = Inr w'"
  shows "handle_JobEvent ev c w = Returned True ev' c' w'"
proof -
  from assms(1) have "job ev' = job ev"
    using handle_TimedEvent_job [of ev c] by simp
  with assms show ?thesis
    by (simp add: handle_JobEvent_def JobEvent_handle_body_def)
qed

text \<open>
  Claim C8. Calling \<^verbatim>\<open>handle()\<close> on a \<^verbatim>\<open>JobEvent\<close> or a \<^verbatim>\<open>PriorityEvent\<close> through a
  reference to \<^verbatim>\<open>TimedEvent\<close> runs \<^verbatim>\<open>JobEvent::handle()\<close>, as the call through a
  reference of the object's own class does (and, for a \<^verbatim>\<open>PriorityEvent\<close>, the call through
  a reference to \<^verbatim>\<open>JobEvent\<close>). So when the event fires and the callback returns, the
  call through the base has run the callback: it returns true with the environment the
  callback left.
\<close>

theorem handle_dispatch_virtual:
  "call_handle TimedEvent_class (JobEvent_object jev) c w
     = Some (map_outcome JobEvent_object id (handle_JobEvent jev c w)) \<and>
   call_handle TimedEvent_class (JobEvent_object jev) c w
     = call_handle JobEvent_class (JobEvent_object jev) c w \<and>
   call_handle TimedEvent_class (PriorityEvent_object pev) c w
     = Some (map_outcome PriorityEvent_object id (handle_JobEvent pev c w)) \<and>
   call_handle TimedEvent_class (PriorityEvent_object pev) c w
     = call_handle PriorityEvent_class (PriorityEvent_object pev) c w \<and>
   call_handle JobEvent_class (PriorityEvent_object pev) c w
     = call_handle PriorityEvent_class (PriorityEvent_object pev) c w \<and>
   (handle_TimedEvent pev c = (True, pev', c') \<and>
    job pev (TimedEvent.truncate pev') w = Inr w' \<longrightarrow>
      call_handle TimedEvent_class (PriorityEvent_object pev) c w
        = Some (Returned True (PriorityEvent_object pev') c' w')) \<and>
   (handle_TimedEvent jev c = (True, jev', c') \<and>
    job jev (TimedEvent.truncate jev') w = Inr w' \<longrightarrow>
      call_handle TimedEvent_class (JobEvent_object jev) c w
        = Some (Returned True (JobEvent_object jev') c' w'))"
  using handle_JobEvent_fires [of pev c pev' c' w w'] handle_JobEvent_fires [of jev c jev' c' w w']
  by (simp add: call_handle_def is_base_of_eq final_overrider_eq
      del: is_base_of.simps final_overrider.simps)

theorem handle_dispatch_virtual_witness:
  "call_handle TimedEvent_class
     (PriorityEvent_object
        \<lparr>startTime = 0, endTime = 0, handled = False, repeated = False, waitTime = 1,
          job = \<lambda>_ n. Inr (Suc n), priority = 4\<rparr>) (ticking 1500000000) (0 :: nat)
   = Some (Returned True
       (PriorityEvent_object
          \<lparr>startTime = 0, endTime = 0, handled = True, repeated = False, waitTime = 1,
            job = \<lambda>_ n. Inr (Suc n), priority = 4\<rparr>) (ticking 2000000000) 1) \<and>
   call_handle TimedEvent_class
     (JobEvent_object
        \<lparr>startTime = 0, endTime = 0, handled = False, repeated = True, waitTime = 1,
          job = \<lambda>_ n. Inr (Suc n)\<rparr>) (ticking 1500000000) (0 :: nat)
   = Some (Returned True
       (JobEvent_object
          \<lparr>startTime = 2000000000, endTime = 0, handled = False, repeated = True,
            waitTime = 1, job = \<lambda>_ n. Inr (Suc n)\<rparr>) (ticking 2500000000) 1)"
proof -
  let ?cb = "\<lambda>_ (n :: nat). Inr (Suc n) :: exn + nat"
  let ?pev = "\<lparr>startTime = 0, endTime = 0, handled = False, repeated = False, waitTime = 1,
                job = ?cb, priority = 4 :: 32 word\<rparr>"
  let ?pev1 = "\<lparr>startTime = 0, endTime = 0, handled = True, repeated = False, waitTime = 1,
                 job = ?cb, priority = 4 :: 32 word\<rparr>"
  let ?jev = "\<lparr>startTime = 0, endTime = 0, handled = False, repeated = True, waitTime = 1,
                job = ?cb\<rparr>"
  let ?jev1 = "\<lparr>startTime = 2000000000, endTime = 0, handled = False, repeated = True,
                 waitTime = 1, job = ?cb\<rparr>"
  have fires: "handle_TimedEvent ?pev (ticking 1500000000) = (True, ?pev1, ticking 2000000000) \<and>
               job ?pev (TimedEvent.truncate ?pev1) 0 = Inr 1"
    by (simp add: handle_TimedEvent_fire shd_ticking stl_ticking seconds_def)
  have restarts: "handle_TimedEvent ?jev (ticking 1500000000) = (True, ?jev1, ticking 2500000000) \<and>
               job ?jev (TimedEvent.truncate ?jev1) 0 = Inr 1"
    by (simp add: handle_TimedEvent_restart shd_ticking stl_ticking seconds_def)
  from handle_dispatch_virtual [where pev = ?pev and pev' = ?pev1 and c = "ticking 1500000000"
      and c' = "ticking 2000000000" and w = 0 and w' = 1] fires
  have "call_handle TimedEvent_class (PriorityEvent_object ?pev) (ticking 1500000000) 0
          = Some (Returned True (PriorityEvent_object ?pev1) (ticking 2000000000) 1)"
    by blast
  moreover
  from handle_dispatch_virtual [where jev = ?jev and jev' = ?jev1 and c = "ticking 1500000000"
      and c' = "ticking 2500000000" and w = 0 and w' = 1] restarts
  have "call_handle TimedEvent_class (JobEvent_object ?jev) (ticking 1500000000) 0
          = Some (Returned True (JobEvent_object ?jev1) (ticking 2500000000) 1)"
    by blast
  ultimately show ?thesis by simp
qed

section \<open>Recurring events\<close>










section \<open>Negative waits\<close>

lemma monotonic_stl: "monotonic c \<Longrightarrow> monotonic (stl c)"
  unfolding monotonic_def
proof
  fix i
  assume later: "\<forall>i. c !! i \<le> c !! Suc i"
  from later have "c !! Suc i \<le> c !! Suc (Suc i)" by blast
  then show "stl c !! i \<le> stl c !! Suc i" by simp
qed

lemma monotonic_sdrop: "monotonic c \<Longrightarrow> monotonic (sdrop k c)"
  by (induction k arbitrary: c) (simp_all add: monotonic_stl)

lemma monotonic_next: "monotonic c \<Longrightarrow> shd c \<le> shd (stl c)"
  using monotonic_later [of c 1] by simp

lemma negative_wait_due:
  assumes "waitTime ev < 0" and "startTime ev \<le> shd c"
  shows "fst (getLateness ev c) = seconds (shd c - startTime ev) - waitTime ev"
    and "0 < fst (getLateness ev c)"
    and "fst (isDue ev c)"
    and "fst (shouldHandle ev c) = (\<not> handled ev)"
proof -
  show lateness: "fst (getLateness ev c) = seconds (shd c - startTime ev) - waitTime ev"
    by (simp add: getLateness_def Clock_now_def)
  from assms(2) have "0 \<le> seconds (shd c - startTime ev)"
    by (simp add: seconds_nonneg)
  with assms(1) lateness show late: "0 < fst (getLateness ev c)" by simp
  then show due: "fst (isDue ev c)"
    by (cases "getLateness ev c") (simp add: isDue_def)
  then show "fst (shouldHandle ev c) = (\<not> handled ev)"
    by (simp add: shouldHandle_def)
qed

lemma handle_negative_wait:
  assumes "waitTime ev < 0" and "monotonic c" and "startTime ev \<le> shd c"
    and "handle_TimedEvent ev c = (r, ev', c')"
  shows "r = (\<not> handled ev) \<and> waitTime ev' = waitTime ev \<and> repeated ev' = repeated ev \<and>
         monotonic c' \<and> startTime ev' \<le> shd c' \<and> (repeated ev \<longrightarrow> handled ev' = handled ev)"
proof (cases "handled ev")
  case True
  with assms(4) have "r = False" "ev' = ev" "c' = c"
    by (simp_all add: handle_TimedEvent_handled)
  with True assms(2,3) show ?thesis by simp
next
  case False
  have due: "0 \<le> seconds (shd c - startTime ev) - waitTime ev"
    using negative_wait_due(1,2) [OF assms(1,3)] by simp
  have step: "shd c \<le> shd (stl c)" "shd (stl c) \<le> shd (stl (stl c))"
    using assms(2) by (simp_all add: monotonic_next monotonic_stl)
  show ?thesis
  proof (cases "repeated ev")
    case True
    with False due assms(4) have "r" "ev' = ev\<lparr>startTime := shd (stl c)\<rparr>" "c' = stl (stl c)"
      by (simp_all add: handle_TimedEvent_restart)
    with False True step assms(2) show ?thesis
      by (simp add: monotonic_stl)
  next
    case one_shot: False
    with False due assms(4) have "r" "ev' = ev\<lparr>handled := True\<rparr>" "c' = stl c"
      by (simp_all add: handle_TimedEvent_fire)
    with False one_shot step assms(2,3) show ?thesis
      by (simp add: monotonic_stl)
  qed
qed

lemma handle_after_negative_wait:
  "waitTime ev < 0 \<Longrightarrow> monotonic c \<Longrightarrow> startTime ev \<le> shd c \<Longrightarrow>
   handle_after ks ev c = (rs, ev', c') \<Longrightarrow>
   waitTime ev' = waitTime ev \<and> monotonic c' \<and> startTime ev' \<le> shd c' \<and>
   (ks \<noteq> [] \<longrightarrow> hd rs = (\<not> handled ev)) \<and>
   (repeated ev \<and> \<not> handled ev \<longrightarrow> rs = replicate (length ks) True)"
proof (induction ks arbitrary: ev c rs)
  case Nil
  then show ?case by simp
next
  case (Cons k ks)
  obtain r ev1 c1 where first: "handle_TimedEvent ev (sdrop k c) = (r, ev1, c1)"
    by (cases "handle_TimedEvent ev (sdrop k c)") auto
  obtain rs1 where rest: "handle_after ks ev1 c1 = (rs1, ev', c')" and rs: "rs = r # rs1"
    using Cons.prems(4) first by (cases "handle_after ks ev1 c1") auto
  have mono: "monotonic (sdrop k c)"
    using Cons.prems(2) by (rule monotonic_sdrop)
  have "shd c \<le> shd (sdrop k c)"
    using Cons.prems(2) by (rule monotonic_later)
  with Cons.prems(3) have past: "startTime ev \<le> shd (sdrop k c)" by simp
  from handle_negative_wait [OF Cons.prems(1) mono past first]
  have step: "r = (\<not> handled ev)" "waitTime ev1 = waitTime ev" "repeated ev1 = repeated ev"
    "monotonic c1" "startTime ev1 \<le> shd c1" "repeated ev \<longrightarrow> handled ev1 = handled ev"
    by simp_all
  from Cons.prems(1) step(2) have neg: "waitTime ev1 < 0" by simp
  from Cons.IH [OF neg step(4,5) rest] step rs show ?case by auto
qed

text \<open>
  Claim C10 says that an event built with a negative wait is due at every instant from its
  construction on. It is so only on a monotonic clock: on a clock that reads
  \<open>5000000000\<close> when the event is built and \<open>0\<close> afterwards, the event built with the
  wait \<open>-1\<close> has the lateness \<open>-4\<close>, is not due, and its first \<^verbatim>\<open>handle()\<close> returns false.
\<close>

theorem negative_waitTime_not_due_counterexample:
  "fst (getLateness (fst (TimedEvent_ctor False (- 1) (5000000000 ## ticking 0)))
         (snd (TimedEvent_ctor False (- 1) (5000000000 ## ticking 0)))) = - 4 \<and>
   \<not> fst (isDue (fst (TimedEvent_ctor False (- 1) (5000000000 ## ticking 0)))
           (snd (TimedEvent_ctor False (- 1) (5000000000 ## ticking 0)))) \<and>
   \<not> fst (handle_TimedEvent (fst (TimedEvent_ctor False (- 1) (5000000000 ## ticking 0)))
           (snd (TimedEvent_ctor False (- 1) (5000000000 ## ticking 0))))"
  by (simp add: TimedEvent_ctor_eq handle_TimedEvent_returns shouldHandle_eq isDue_def
      getLateness_def Clock_now_def shd_ticking seconds_def)

text \<open>
  Claim C10, amended. For a wait \<open>w < 0\<close> the constructor builds an event that stores \<open>w\<close>
  unchanged and is not handled. If the clock is monotonic, the event is due for good. At
  every later state of the clock (\<open>n\<close> readings after the construction)
  \<^verbatim>\<open>getLateness()\<close> is the time since the construction minus \<open>w\<close>, which is positive, so
  \<^verbatim>\<open>isDue()\<close> and \<^verbatim>\<open>shouldHandle()\<close> return true and the first \<^verbatim>\<open>handle()\<close> returns true.
  And after any number of calls of \<^verbatim>\<open>handle()\<close>, whatever the time between them, the event
  still has the wait \<open>w\<close>, \<^verbatim>\<open>getLateness()\<close> is the time since \<^verbatim>\<open>startTime\<close> minus \<open>w\<close>
  and is positive, \<^verbatim>\<open>isDue()\<close> returns true, and \<^verbatim>\<open>shouldHandle()\<close> and \<^verbatim>\<open>handle()\<close>
  return true exactly when the event is not handled; the first of the calls returned true,
  and for a repeated event every one of them did.
\<close>

theorem negative_waitTime_always_due:
  assumes "w < 0" and "monotonic c" and "TimedEvent_ctor rep w c = (ev, c1)"
    and "handle_after ks ev c1 = (rs, ev', c2)"
  shows "waitTime ev = w \<and> \<not> handled ev \<and>
         fst (getLateness ev (sdrop n c1)) = seconds (shd (sdrop n c1) - shd c) - w \<and>
         0 < fst (getLateness ev (sdrop n c1)) \<and>
         fst (isDue ev (sdrop n c1)) \<and>
         fst (shouldHandle ev (sdrop n c1)) \<and>
         fst (handle_TimedEvent ev (sdrop n c1)) \<and>
         waitTime ev' = w \<and>
         fst (getLateness ev' (sdrop n c2)) = seconds (shd (sdrop n c2) - startTime ev') - w \<and>
         0 < fst (getLateness ev' (sdrop n c2)) \<and>
         fst (isDue ev' (sdrop n c2)) \<and>
         fst (shouldHandle ev' (sdrop n c2)) = (\<not> handled ev') \<and>
         fst (handle_TimedEvent ev' (sdrop n c2)) = (\<not> handled ev') \<and>
         (ks \<noteq> [] \<longrightarrow> hd rs) \<and>
         (rep \<longrightarrow> rs = replicate (length ks) True)"
proof -
  from assms(3) have ev: "ev = \<lparr>startTime = shd c, endTime = 0, handled = False,
                                repeated = rep, waitTime = w\<rparr>"
    and c1: "c1 = stl c"
    by (simp_all add: TimedEvent_ctor_eq)
  have neg: "waitTime ev < 0" using assms(1) by (simp add: ev)
  have mono1: "monotonic c1" using assms(2) by (simp add: c1 monotonic_stl)
  have past1: "startTime ev \<le> shd c1"
    using assms(2) by (simp add: ev c1 monotonic_next)
  have "shd c1 \<le> shd (sdrop n c1)" using mono1 by (rule monotonic_later)
  with past1 have past1n: "startTime ev \<le> shd (sdrop n c1)" by simp
  from negative_wait_due [OF neg past1n]
  have built: "fst (getLateness ev (sdrop n c1)) = seconds (shd (sdrop n c1) - shd c) - w"
    "0 < fst (getLateness ev (sdrop n c1))" "fst (isDue ev (sdrop n c1))"
    "fst (shouldHandle ev (sdrop n c1))"
    by (simp_all add: ev)
  then have first: "fst (handle_TimedEvent ev (sdrop n c1))"
    by (simp add: handle_TimedEvent_returns)
  from handle_after_negative_wait [OF neg mono1 past1 assms(4)]
  have after: "waitTime ev' = w" "monotonic c2" "startTime ev' \<le> shd c2"
    "ks \<noteq> [] \<longrightarrow> hd rs" "rep \<longrightarrow> rs = replicate (length ks) True"
    by (simp_all add: ev)
  have "shd c2 \<le> shd (sdrop n c2)" using after(2) by (rule monotonic_later)
  with after(3) have past2n: "startTime ev' \<le> shd (sdrop n c2)" by simp
  from after(1) assms(1) have neg': "waitTime ev' < 0" by simp
  from negative_wait_due [OF neg' past2n] after(1)
  have later: "fst (getLateness ev' (sdrop n c2)) = seconds (shd (sdrop n c2) - startTime ev') - w"
    "0 < fst (getLateness ev' (sdrop n c2))" "fst (isDue ev' (sdrop n c2))"
    "fst (shouldHandle ev' (sdrop n c2)) = (\<not> handled ev')"
    by simp_all
  then have again: "fst (handle_TimedEvent ev' (sdrop n c2)) = (\<not> handled ev')"
    by (simp add: handle_TimedEvent_returns)
  have start: "waitTime ev = w \<and> \<not> handled ev" by (simp add: ev)
  from start built first after(1,4,5) later again show ?thesis by simp
qed

theorem negative_waitTime_always_due_witness:
  "fst (getLateness \<lparr>startTime = 0, endTime = 0, handled = False, repeated = True,
                     waitTime = - 2\<rparr> (ticking 1500000000)) = 7 / 2 \<and>
   fst (handle_TimedEvent \<lparr>startTime = 0, endTime = 0, handled = False, repeated = True,
                     waitTime = - 2\<rparr> (ticking 1500000000)) \<and>
   fst (getLateness \<lparr>startTime = 3000000000, endTime = 0, handled = False, repeated = True,
                     waitTime = - 2\<rparr> (ticking 4500000000)) = 7 / 2 \<and>
   fst (handle_TimedEvent \<lparr>startTime = 3000000000, endTime = 0, handled = False,
                     repeated = True, waitTime = - 2\<rparr> (ticking 4500000000))"
proof -
  let ?ev = "\<lparr>startTime = 0, endTime = 0, handled = False, repeated = True, waitTime = - 2\<rparr>"
  let ?ev1 = "\<lparr>startTime = 2000000000, endTime = 0, handled = False, repeated = True,
                waitTime = - 2\<rparr>"
  let ?ev2 = "\<lparr>startTime = 3000000000, endTime = 0, handled = False, repeated = True,
                waitTime = - 2\<rparr>"
  have neg: "(- 2 :: real) < 0" by simp
  have mono: "monotonic (ticking 0)" by (rule monotonic_ticking)
  have built: "TimedEvent_ctor True (- 2) (ticking 0) = (?ev, ticking 500000000)"
    by (simp add: TimedEvent_ctor_eq shd_ticking stl_ticking)
  have later: "sdrop 2 (ticking 500000000) = ticking 1500000000"
    by (simp add: stl_ticking numeral_2_eq_2)
  have later': "sdrop 2 (ticking 3500000000) = ticking 4500000000"
    by (simp add: stl_ticking numeral_2_eq_2)
  have first: "handle_TimedEvent ?ev (ticking 1500000000) = (True, ?ev1, ticking 2500000000)"
    by (simp add: handle_TimedEvent_restart shd_ticking stl_ticking seconds_def)
  have second: "handle_TimedEvent ?ev1 (ticking 2500000000) = (True, ?ev2, ticking 3500000000)"
    by (simp add: handle_TimedEvent_restart shd_ticking stl_ticking seconds_def)
  have ran: "handle_after [2, 0] ?ev (ticking 500000000)
               = ([True, True], ?ev2, ticking 3500000000)"
    by (simp add: later first second)
  from negative_waitTime_always_due [OF neg mono built ran, of 2]
  show ?thesis by (simp add: later later' shd_ticking seconds_def)
qed

end
